theory Spec2Isabelle
  imports Main "HOL-Library.Sublist"
begin

section \<open>Python strings\<close>

text \<open>
  A Python 3 \<^verbatim>\<open>str\<close> is a sequence of Unicode code points, so identifiers, log texts and
  messages are lists of code points here (a HOL \<open>string\<close> is a list of bytes and cannot
  hold them). \<open>py\<close> turns a literal of ASCII characters into its code points.
\<close>

type_synonym pystr = "nat list"

definition py :: "string \<Rightarrow> pystr" where
  "py s = map of_char s"

section \<open>Data model\<close>

text \<open>
  Modelled from the spec: \<^verbatim>\<open>supbot/model.py\<close> (\<^verbatim>\<open>State\<close>, \<^verbatim>\<open>GUIState\<close>, \<^verbatim>\<open>Action\<close>,
  \<^verbatim>\<open>Event\<close>) is not among the sources. The spec gives the believed screen as a tagged
  variant, \<^verbatim>\<open>Main\<close> without payload or \<^verbatim>\<open>Chat(identifier)\<close>. \<open>MAIN\<close> stands for
  \<^verbatim>\<open>GUIState(State.MAIN)\<close> and \<open>CHAT x\<close> for \<^verbatim>\<open>GUIState(State.CHAT, x)\<close>; a test
  \<^verbatim>\<open>g.state == State.CHAT\<close> is a case distinction and \<^verbatim>\<open>g.info\<close> is the argument of
  \<open>CHAT\<close>.
\<close>

datatype GUIState = MAIN | CHAT pystr

text \<open>
  Modelled from the spec: the \<^verbatim>\<open>Event\<close> enumeration; the sources use one member,
  \<^verbatim>\<open>Event.MESSAGE_RECEIVED\<close>.
\<close>

datatype Event = MESSAGE_RECEIVED

text \<open>
  An action carries \<^verbatim>\<open>name\<close> (its kind, a member of an enumeration declared outside the
  sources, here the type \<open>'k\<close>) and \<^verbatim>\<open>data\<close> (the payload, \<open>'p\<close>).
\<close>

record ('k, 'p) Action =
  name :: 'k
  data :: 'p

text \<open>
  The object \<^verbatim>\<open>driver.get_new_chat()\<close> returns; only \<^verbatim>\<open>chat.name\<close> is read, which is
  the field \<open>chat_name\<close> (the name \<open>name\<close> is taken by the action's field).
\<close>

record Chat =
  chat_name :: pystr

text \<open>
  What \<^verbatim>\<open>system.logger\<close> has been given. \<open>Debug\<close> and \<open>Warning\<close> hold the formatted
  text; the warning of \<^verbatim>\<open>execute_action\<close> formats three objects whose \<^verbatim>\<open>str\<close> is not in
  the sources, so it is kept as the three objects.
\<close>

datatype ('k, 'p, 't) log_record =
    Debug pystr
  | Warning pystr
  | Warning_typing 'k 'p 't

text \<open>
  The \<^verbatim>\<open>System\<close> object of \<^verbatim>\<open>system.py\<close>, as far as the service manager touches it:
  the action buffer (a Python list, the last element is the most recent), the records
  sent to the logger, and \<open>supbot\<close>, the state of the embedding application that the
  event callbacks own.
\<close>

record ('k, 'p, 't, 'u) System =
  action_buffer :: "('k, 'p) Action list"
  logger :: "('k, 'p, 't) log_record list"
  supbot :: 'u

text \<open>The calls the service manager makes on the \<^verbatim>\<open>AppDriver\<close>.\<close>

datatype driver_call =
    Press_back
  | Click_on_chat pystr
  | Search_chat pystr
  | Type_and_send pystr
  | Click_on_last_chat_link
  | Click_ok
  | Get_new_chat
  | Get_new_messages

text \<open>
  \<^verbatim>\<open>supbot/app_driver.py\<close> is not among the sources, so the driver is a parameter: one
  function per method that the service manager calls, over a state \<open>'d\<close> of the remote
  application, each returning what the method returns and the state it leaves. The
  methods are taken to return (an exception escaping the driver is outside the model).
\<close>

record ('d, 'm) AppDriver =
  press_back :: "'d \<Rightarrow> 'd"
  click_on_chat :: "pystr \<Rightarrow> 'd \<Rightarrow> bool \<times> 'd"
  search_chat :: "pystr \<Rightarrow> 'd \<Rightarrow> bool \<times> 'd"
  type_and_send :: "pystr \<Rightarrow> 'd \<Rightarrow> bool \<times> 'd"
  click_on_last_chat_link :: "'d \<Rightarrow> bool \<times> 'd"
  click_ok :: "'d \<Rightarrow> bool \<times> 'd"
  get_new_chat :: "'d \<Rightarrow> Chat option \<times> 'd"
  get_new_messages :: "'d \<Rightarrow> 'm list \<times> 'd"

text \<open>
  Everything the three functions can change: the remote application behind the driver,
  the \<^verbatim>\<open>System\<close> object, and two histories kept for the statements below, the driver
  calls issued and the events handed to \<^verbatim>\<open>System.call_event\<close>, both oldest first.
\<close>

record ('d, 'k, 'p, 't, 'u, 'm) world =
  drv :: 'd
  system :: "('k, 'p, 't, 'u) System"
  calls :: "driver_call list"
  emitted :: "(Event \<times> pystr \<times> 'm) list"

section \<open>Driver calls and logging\<close>

definition do_press_back ::
  "('d, 'm) AppDriver \<Rightarrow> ('d, 'k, 'p, 't, 'u, 'm) world \<Rightarrow> ('d, 'k, 'p, 't, 'u, 'm) world" where
  "do_press_back D w = w\<lparr>drv := press_back D (drv w), calls := calls w @ [Press_back]\<rparr>"

definition do_call ::
  "driver_call \<Rightarrow> ('d \<Rightarrow> 'r \<times> 'd) \<Rightarrow> ('d, 'k, 'p, 't, 'u, 'm) world
     \<Rightarrow> 'r \<times> ('d, 'k, 'p, 't, 'u, 'm) world" where
  "do_call c f w =
     (case f (drv w) of (r, d') \<Rightarrow> (r, w\<lparr>drv := d', calls := calls w @ [c]\<rparr>))"

definition do_click_on_chat ::
  "('d, 'm) AppDriver \<Rightarrow> pystr \<Rightarrow> ('d, 'k, 'p, 't, 'u, 'm) world
     \<Rightarrow> bool \<times> ('d, 'k, 'p, 't, 'u, 'm) world" where
  "do_click_on_chat D x = do_call (Click_on_chat x) (click_on_chat D x)"

definition do_search_chat ::
  "('d, 'm) AppDriver \<Rightarrow> pystr \<Rightarrow> ('d, 'k, 'p, 't, 'u, 'm) world
     \<Rightarrow> bool \<times> ('d, 'k, 'p, 't, 'u, 'm) world" where
  "do_search_chat D x = do_call (Search_chat x) (search_chat D x)"

definition do_type_and_send ::
  "('d, 'm) AppDriver \<Rightarrow> pystr \<Rightarrow> ('d, 'k, 'p, 't, 'u, 'm) world
     \<Rightarrow> bool \<times> ('d, 'k, 'p, 't, 'u, 'm) world" where
  "do_type_and_send D x = do_call (Type_and_send x) (type_and_send D x)"

definition do_click_on_last_chat_link ::
  "('d, 'm) AppDriver \<Rightarrow> ('d, 'k, 'p, 't, 'u, 'm) world
     \<Rightarrow> bool \<times> ('d, 'k, 'p, 't, 'u, 'm) world" where
  "do_click_on_last_chat_link D = do_call Click_on_last_chat_link (click_on_last_chat_link D)"

definition do_click_ok ::
  "('d, 'm) AppDriver \<Rightarrow> ('d, 'k, 'p, 't, 'u, 'm) world
     \<Rightarrow> bool \<times> ('d, 'k, 'p, 't, 'u, 'm) world" where
  "do_click_ok D = do_call Click_ok (click_ok D)"

definition do_get_new_chat ::
  "('d, 'm) AppDriver \<Rightarrow> ('d, 'k, 'p, 't, 'u, 'm) world
     \<Rightarrow> Chat option \<times> ('d, 'k, 'p, 't, 'u, 'm) world" where
  "do_get_new_chat D = do_call Get_new_chat (get_new_chat D)"

definition do_get_new_messages ::
  "('d, 'm) AppDriver \<Rightarrow> ('d, 'k, 'p, 't, 'u, 'm) world
     \<Rightarrow> 'm list \<times> ('d, 'k, 'p, 't, 'u, 'm) world" where
  "do_get_new_messages D = do_call Get_new_messages (get_new_messages D)"

definition logger_debug ::
  "pystr \<Rightarrow> ('d, 'k, 'p, 't, 'u, 'm) world \<Rightarrow> ('d, 'k, 'p, 't, 'u, 'm) world" where
  "logger_debug s w = w\<lparr>system := (system w)\<lparr>logger := logger (system w) @ [Debug s]\<rparr>\<rparr>"

definition logger_warning ::
  "('k, 'p, 't) log_record \<Rightarrow> ('d, 'k, 'p, 't, 'u, 'm) world
     \<Rightarrow> ('d, 'k, 'p, 't, 'u, 'm) world" where
  "logger_warning r w = w\<lparr>system := (system w)\<lparr>logger := logger (system w) @ [r]\<rparr>\<rparr>"

text \<open>
  Python's \<^verbatim>\<open>f(..) and g(..)\<close> on two driver calls: the second call is made only when the
  first returned true.
\<close>

definition and_then ::
  "('w \<Rightarrow> bool \<times> 'w) \<Rightarrow> ('w \<Rightarrow> bool \<times> 'w) \<Rightarrow> 'w \<Rightarrow> bool \<times> 'w" where
  "and_then f g w = (case f w of (b, w1) \<Rightarrow> if b then g w1 else (False, w1))"

section \<open>The deep-link pattern\<close>

text \<open>
  \<^verbatim>\<open>re.search("\d{11,13}", _to.info)\<close> on a Python 3 \<^verbatim>\<open>str\<close>: \<^verbatim>\<open>\d\<close> matches every
  Unicode decimal digit (the characters for which \<^verbatim>\<open>str.isdecimal\<close> holds, general
  category Nd), not only the ten ASCII digits. In the Unicode character database these
  come in runs of ten consecutive code points with the values 0 to 9; \<open>decimal_starts\<close>
  lists the code point of the zero of each run, as of Unicode 14.0 (the database of
  CPython 3.11): ASCII, Arabic-Indic, Devanagari, fullwidth and the others, 66 runs.
\<close>

definition decimal_starts :: "nat list" where
  "decimal_starts =
     [48, 1632, 1776, 1984, 2406, 2534, 2662, 2790, 2918, 3046, 3174, 3302, 3430, 3558,
      3664, 3792, 3872, 4160, 4240, 6112, 6160, 6470, 6608, 6784, 6800, 6992, 7088, 7232,
      7248, 42528, 43216, 43264, 43472, 43504, 43600, 44016, 65296, 66720, 68912, 69734,
      69872, 69942, 70096, 70384, 70736, 70864, 71248, 71360, 71472, 71904, 72016, 72784,
      73040, 73120, 92768, 92864, 93008, 120782, 120792, 120802, 120812, 120822, 123200,
      123632, 125264, 130032]"

definition is_digit :: "nat \<Rightarrow> bool" where
  "is_digit c = list_ex (\<lambda>z. z \<le> c \<and> c < z + 10) decimal_starts"

text \<open>
  \<open>match_digits lo hi s\<close> is the greedy match of \<^verbatim>\<open>\d{lo,hi}\<close> at the start of \<open>s\<close> (the
  number of characters taken), and \<open>re_search_digits\<close> tries every start position from
  the left, as \<^verbatim>\<open>re.search\<close> does.
\<close>

definition match_digits :: "nat \<Rightarrow> nat \<Rightarrow> pystr \<Rightarrow> nat option" where
  "match_digits lo hi s =
     (let n = min hi (length (takeWhile is_digit s)) in if lo \<le> n then Some n else None)"

fun re_search_digits :: "nat \<Rightarrow> nat \<Rightarrow> pystr \<Rightarrow> bool" where
  "re_search_digits lo hi [] =
     (case match_digits lo hi [] of Some _ \<Rightarrow> True | None \<Rightarrow> False)"
| "re_search_digits lo hi (c # cs) =
     (case match_digits lo hi (c # cs) of
        Some _ \<Rightarrow> True
      | None \<Rightarrow> re_search_digits lo hi cs)"

definition deep_link_eligible :: "pystr \<Rightarrow> bool" where
  "deep_link_eligible x = re_search_digits 11 13 x"

text \<open>
  The spec's wording of the same test: the string contains a contiguous run of 11 to 13
  digit characters.
\<close>

definition has_digit_run :: "pystr \<Rightarrow> bool" where
  "has_digit_run s =
     (\<exists>ds. sublist ds s \<and> 11 \<le> length ds \<and> length ds \<le> 13 \<and> list_all is_digit ds)"

section \<open>change_state\<close>

text \<open>
  The branch of \<^verbatim>\<open>change_state\<close> for \<^verbatim>\<open>_to.state == State.CHAT\<close> and
  \<^verbatim>\<open>_from.state == State.MAIN\<close> (lines 93 to 119, and line 128 where it falls through),
  with \<open>x\<close> for \<^verbatim>\<open>_to.info\<close>. It makes no recursive call. The result is the pair the
  source returns, \<open>0\<close> for success and \<open>1\<close> for failure, and the world it leaves.
\<close>

definition change_state_from_main ::
  "('d, 'm) AppDriver \<Rightarrow> pystr \<Rightarrow> ('d, 'k, 'p, 't, 'u, 'm) world
     \<Rightarrow> (int \<times> GUIState) \<times> ('d, 'k, 'p, 't, 'u, 'm) world" where
  "change_state_from_main D x w =
    (let (b1, w1) = do_click_on_chat D x w in
     if b1 then ((0, CHAT x), w1)
     else
       let w2 = logger_debug ((py ''Couldn't find chat '') @ x @ (py '', trying search bar'')) w1;
           (b3, w3) = do_search_chat D x w2 in
       if b3 then
         let (b4, w4) = do_click_on_chat D x w3 in
         if b4 then ((0, CHAT x), w4)
         else
           let w5 = logger_debug ((py ''Didn't find chat '') @ x @ (py '' in search, trying intent'')) w4;
               w6 = do_press_back D w5;
               w7 = do_press_back D w6 in
           if deep_link_eligible x then
             let (b8, w8) =
                   and_then (do_search_chat D (py ''!temp'')) (do_click_on_chat D (py ''!temp'')) w7 in
             if b8 then
               let (b9, w9) =
                     and_then (do_type_and_send D ((py ''wa.me/'') @ x))
                       (do_click_on_last_chat_link D) w8 in
               if b9 then
                 let (b10, w10) = do_click_ok D w9 in
                 if \<not> b10 then ((0, CHAT x), w10)
                 else ((1, MAIN), logger_debug (x @ (py '' not found in Whatsapp'')) w10)
               else
                 ((1, MAIN),
                  do_press_back D
                    (logger_warning
                       (Warning ((py ''This could lead to state mismatch, '')
                          @ (py ''if that happens contact the dev''))) w9))
             else
               ((1, MAIN),
                logger_debug (py ''Please create an empty group with `!temp` name'') w8)
           else ((1, MAIN), logger_debug (x @ (py '' not a valid phone number'')) w7)
       else ((1, MAIN), w3))"

text \<open>
  \<^verbatim>\<open>change_state(system, driver, _from, _to)\<close>. The only recursive call is the one of
  line 124, from a chat to another chat, and it passes \<^verbatim>\<open>GUIState(State.MAIN)\<close> as the
  new \<^verbatim>\<open>_from\<close>.
\<close>

function change_state ::
  "('d, 'm) AppDriver \<Rightarrow> GUIState \<Rightarrow> GUIState \<Rightarrow> ('d, 'k, 'p, 't, 'u, 'm) world
     \<Rightarrow> (int \<times> GUIState) \<times> ('d, 'k, 'p, 't, 'u, 'm) world" where
  "change_state D from to w =
    (case to of
       MAIN \<Rightarrow>
         (case from of
            CHAT _ \<Rightarrow> ((0, to), do_press_back D w)
          | MAIN \<Rightarrow> ((1, from), w))
     | CHAT y \<Rightarrow>
         (case from of
            MAIN \<Rightarrow> change_state_from_main D y w
          | CHAT x \<Rightarrow>
              if x \<noteq> y then change_state D MAIN to (do_press_back D w)
              else ((0, to), w)))"
  by pat_completeness auto
termination
  by (relation "measure (\<lambda>(D, from, to, w). case from of MAIN \<Rightarrow> 0 | CHAT _ \<Rightarrow> 1)") auto

declare change_state.simps [simp del]

text \<open>
  The same function with a bound on the nesting of its self-calls: \<open>n\<close> is the number of
  nested recursive calls still allowed, and \<open>None\<close> says that one more was needed.
\<close>

fun change_state_fuel ::
  "nat \<Rightarrow> ('d, 'm) AppDriver \<Rightarrow> GUIState \<Rightarrow> GUIState \<Rightarrow> ('d, 'k, 'p, 't, 'u, 'm) world
     \<Rightarrow> ((int \<times> GUIState) \<times> ('d, 'k, 'p, 't, 'u, 'm) world) option" where
  "change_state_fuel n D from to w =
    (case to of
       MAIN \<Rightarrow>
         (case from of
            CHAT _ \<Rightarrow> Some ((0, to), do_press_back D w)
          | MAIN \<Rightarrow> Some ((1, from), w))
     | CHAT y \<Rightarrow>
         (case from of
            MAIN \<Rightarrow> Some (change_state_from_main D y w)
          | CHAT x \<Rightarrow>
              if x \<noteq> y then
                (case n of
                   0 \<Rightarrow> None
                 | Suc k \<Rightarrow> change_state_fuel k D MAIN to (do_press_back D w))
              else Some ((0, to), w)))"

declare change_state_fuel.simps [simp del]

section \<open>check_for_new_chat\<close>

text \<open>
  \<^verbatim>\<open>System.call_event(event, params)\<close>: the callback registered for the event is looked
  up in \<^verbatim>\<open>self._supbot.events\<close> and, unless it is \<^verbatim>\<open>None\<close>, called with the
  parameters. The table \<open>events\<close> belongs to the embedding application (\<^verbatim>\<open>supbot/api.py\<close>,
  not among the sources) and is a parameter; a callback works on the \<^verbatim>\<open>System\<close> object
  (it may enqueue actions) and is taken to return. Every call is recorded in \<open>emitted\<close>,
  whether a callback is registered or not.
\<close>

definition call_event ::
  "(Event \<Rightarrow> (pystr \<times> 'm \<Rightarrow> ('k, 'p, 't, 'u) System \<Rightarrow> ('k, 'p, 't, 'u) System) option)
     \<Rightarrow> Event \<Rightarrow> pystr \<times> 'm \<Rightarrow> ('d, 'k, 'p, 't, 'u, 'm) world
     \<Rightarrow> ('d, 'k, 'p, 't, 'u, 'm) world" where
  "call_event events event params w =
     (let w1 = w\<lparr>emitted := emitted w @ [(event, params)]\<rparr> in
      (case events event of
         None \<Rightarrow> w1
       | Some callback \<Rightarrow> w1\<lparr>system := callback params (system w1)\<rparr>))"

text \<open>
  \<^verbatim>\<open>check_for_new_chat(system, driver, current)\<close>. Both calls of \<^verbatim>\<open>change_state\<close> drop
  the success flag (\<^verbatim>\<open>_, current = change_state(...)\<close>); the \<^verbatim>\<open>for\<close> loop over the
  messages is the \<open>fold\<close>.
\<close>

definition check_for_new_chat ::
  "(Event \<Rightarrow> (pystr \<times> 'm \<Rightarrow> ('k, 'p, 't, 'u) System \<Rightarrow> ('k, 'p, 't, 'u) System) option)
     \<Rightarrow> ('d, 'm) AppDriver \<Rightarrow> GUIState \<Rightarrow> ('d, 'k, 'p, 't, 'u, 'm) world
     \<Rightarrow> GUIState \<times> ('d, 'k, 'p, 't, 'u, 'm) world" where
  "check_for_new_chat events D current w =
     (let ((_, current1), w1) = change_state D current MAIN w;
          (chat, w2) = do_get_new_chat D w1 in
      (case chat of
         None \<Rightarrow> (current1, w2)
       | Some c \<Rightarrow>
           let ((_, current2), w3) = change_state D current1 (CHAT (chat_name c)) w2;
               (messages, w4) = do_get_new_messages D w3 in
           (current2,
            fold (\<lambda>m. call_event events MESSAGE_RECEIVED (chat_name c, m)) messages w4)))"

section \<open>execute_action\<close>

text \<open>
  An entry of the registry \<^verbatim>\<open>supbot.action.actions\<close> (not among the sources, so a
  parameter of \<^verbatim>\<open>execute_action\<close>): the payload schema \<^verbatim>\<open>data_type\<close> and the handler
  \<^verbatim>\<open>run(driver, current, system, data)\<close>, which returns the new believed state and is
  taken to return.
\<close>

record ('d, 'k, 'p, 't, 'u, 'm) ActionMeta =
  data_type :: 't
  run :: "('d, 'm) AppDriver \<Rightarrow> GUIState \<Rightarrow> 'p \<Rightarrow> ('d, 'k, 'p, 't, 'u, 'm) world
            \<Rightarrow> GUIState \<times> ('d, 'k, 'p, 't, 'u, 'm) world"

text \<open>The exception that leaves \<^verbatim>\<open>execute_action\<close>: \<^verbatim>\<open>actions[action.name]\<close> on a missing key.\<close>

datatype error = KeyError

text \<open>
  \<^verbatim>\<open>execute_action(system, driver, current)\<close>. \<^verbatim>\<open>list.pop()\<close> takes the last element and
  raises \<^verbatim>\<open>IndexError\<close> on the empty list, which the source catches. The registry is the
  map \<open>actions\<close>. \<open>check_type v t\<close> says that typeguard's \<^verbatim>\<open>check_type\<close> accepts the
  payload \<open>v\<close> for the schema \<open>t\<close> (it raises \<^verbatim>\<open>TypeError\<close> otherwise, which the source
  catches). The result is the returned state or the escaping exception, and the world
  as it is left in either case.
\<close>

definition execute_action ::
  "('k \<Rightarrow> ('d, 'k, 'p, 't, 'u, 'm) ActionMeta option) \<Rightarrow> ('p \<Rightarrow> 't \<Rightarrow> bool)
     \<Rightarrow> ('d, 'm) AppDriver \<Rightarrow> GUIState \<Rightarrow> ('d, 'k, 'p, 't, 'u, 'm) world
     \<Rightarrow> (error + GUIState) \<times> ('d, 'k, 'p, 't, 'u, 'm) world" where
  "execute_action actions check_type D current w =
     (case action_buffer (system w) of
        [] \<Rightarrow> (Inr current, w)
      | _ # _ \<Rightarrow>
          let action = last (action_buffer (system w));
              w1 = w\<lparr>system := (system w)\<lparr>action_buffer := butlast (action_buffer (system w))\<rparr>\<rparr>
          in
          (case actions (name action) of
             None \<Rightarrow> (Inl KeyError, w1)
           | Some meta \<Rightarrow>
               if \<not> check_type (data action) (data_type meta) then
                 (Inr current,
                  logger_warning
                    (Warning_typing (name action) (data action) (data_type meta)) w1)
               else
                 (case run meta D current (data action) w1 of
                    (current', w2) \<Rightarrow> (Inr current', w2))))"

section \<open>Concrete drivers and worlds\<close>

text \<open>
  A driver that reads its answers from a script: its state is the list of answers still
  to give, every method that returns a truth value takes the next one (false once the
  script is used up), and \<^verbatim>\<open>get_new_chat\<close> and \<^verbatim>\<open>get_new_messages\<close> return what the
  driver was built with.
\<close>

definition next_answer :: "bool list \<Rightarrow> bool \<times> bool list" where
  "next_answer d = (case d of [] \<Rightarrow> (False, []) | b # bs \<Rightarrow> (b, bs))"

definition scripted_driver :: "Chat option \<Rightarrow> pystr list \<Rightarrow> (bool list, pystr) AppDriver" where
  "scripted_driver c ms =
     \<lparr>press_back = (\<lambda>d. d),
      click_on_chat = (\<lambda>_. next_answer),
      search_chat = (\<lambda>_. next_answer),
      type_and_send = (\<lambda>_. next_answer),
      click_on_last_chat_link = next_answer,
      click_ok = next_answer,
      get_new_chat = (\<lambda>d. (c, d)),
      get_new_messages = (\<lambda>d. (ms, d))\<rparr>"

text \<open>
  A world with the given script and action buffer, nothing logged, no call issued and no
  event emitted yet. Action kinds, payloads and schemas are natural numbers here.
\<close>

definition world0 ::
  "bool list \<Rightarrow> (nat, nat) Action list \<Rightarrow> (bool list, nat, nat, nat, unit, pystr) world" where
  "world0 d buf =
     \<lparr>drv = d,
      system = \<lparr>action_buffer = buf, logger = [], supbot = ()\<rparr>,
      calls = [],
      emitted = []\<rparr>"

text \<open>
  A registry with the single kind \<open>0\<close>, whose schema is \<open>7\<close> and whose handler presses
  back and returns \<open>MAIN\<close>; a payload fits a schema when the two numbers are equal.
\<close>

definition registry0 ::
  "nat \<Rightarrow> (bool list, nat, nat, nat, unit, pystr) ActionMeta option" where
  "registry0 k =
     (if k = 0 then Some \<lparr>data_type = 7, run = (\<lambda>D current p w. (MAIN, do_press_back D w))\<rparr>
      else None)"

definition check_type0 :: "nat \<Rightarrow> nat \<Rightarrow> bool" where
  "check_type0 v t = (v = t)"

text \<open>
  An event callback of the embedding application: it enqueues an action of kind \<open>0\<close>
  whose payload is the length of the message.
\<close>

definition enqueue_callback ::
  "pystr \<times> pystr \<Rightarrow> (nat, nat, nat, unit) System \<Rightarrow> (nat, nat, nat, unit) System" where
  "enqueue_callback params s =
     s\<lparr>action_buffer := action_buffer s @ [\<lparr>name = 0, data = length (snd params)\<rparr>]\<rparr>"

section \<open>Basic facts\<close>

lemma do_call_eq:
  "do_call c f w = (fst (f (drv w)), w\<lparr>drv := snd (f (drv w)), calls := calls w @ [c]\<rparr>)"
  by (simp add: do_call_def split: prod.split)

lemmas driver_wrappers =
  do_click_on_chat_def do_search_chat_def do_type_and_send_def
  do_click_on_last_chat_link_def do_click_ok_def do_get_new_chat_def
  do_get_new_messages_def do_call_eq do_press_back_def logger_debug_def logger_warning_def
  and_then_def

lemmas concrete_defs =
  scripted_driver_def next_answer_def world0_def registry0_def check_type0_def
  enqueue_callback_def py_def

lemma change_state_to_MAIN:
  "change_state D (CHAT x) MAIN w = ((0, MAIN), do_press_back D w)"
  "change_state D MAIN MAIN w = ((1, MAIN), w)"
  by (simp_all add: change_state.simps)

lemma change_state_MAIN_CHAT:
  "change_state D MAIN (CHAT y) w = change_state_from_main D y w"
  by (simp add: change_state.simps)

lemma change_state_CHAT_CHAT:
  "change_state D (CHAT x) (CHAT y) w =
     (if x \<noteq> y then change_state D MAIN (CHAT y) (do_press_back D w) else ((0, CHAT y), w))"
  by (subst change_state.simps) simp

lemma change_state_from_main_result:
  "fst (change_state_from_main D x w) = (0, CHAT x) \<or>
   fst (change_state_from_main D x w) = (1, MAIN)"
  by (simp add: change_state_from_main_def Let_def split: prod.split)

lemma emitted_change_state_from_main:
  "emitted (snd (change_state_from_main D x w)) = emitted w"
  by (simp add: change_state_from_main_def Let_def driver_wrappers split: prod.split)

text \<open>
  The two outcomes of \<^verbatim>\<open>change_state\<close>: success with the target, or failure with the
  state of the \<^verbatim>\<open>return 1, _from\<close> that was reached, which after the recursive call is
  \<open>MAIN\<close>.
\<close>

lemma change_state_result:
  "fst (change_state D from to w) = (0, to) \<or>
   fst (change_state D from to w) =
     (1, case from of MAIN \<Rightarrow> MAIN | CHAT x \<Rightarrow> (case to of MAIN \<Rightarrow> CHAT x | CHAT y \<Rightarrow> MAIN))"
  using change_state_from_main_result [of D _ w]
    change_state_from_main_result [of D _ "do_press_back D w"]
  by (cases "from"; cases "to")
     (auto simp: change_state_to_MAIN change_state_MAIN_CHAT change_state_CHAT_CHAT)

lemma emitted_change_state:
  "emitted (snd (change_state D from to w)) = emitted w"
  by (cases "from"; cases "to")
     (simp_all add: change_state_to_MAIN change_state_MAIN_CHAT change_state_CHAT_CHAT
        emitted_change_state_from_main do_press_back_def)

lemma change_state_to_MAIN_state:
  "snd (fst (change_state D current MAIN w)) = MAIN"
  by (cases current) (simp_all add: change_state_to_MAIN)

lemma fold_call_event:
  "emitted (fold (\<lambda>m. call_event events e (n, m)) ms w) = emitted w @ map (\<lambda>m. (e, n, m)) ms \<and>
   calls (fold (\<lambda>m. call_event events e (n, m)) ms w) = calls w \<and>
   drv (fold (\<lambda>m. call_event events e (n, m)) ms w) = drv w"
  by (induction ms arbitrary: w) (simp_all add: call_event_def Let_def split: option.split)

lemma check_for_new_chat_none:
  assumes "change_state D current MAIN w = (r1, w1)"
    and "do_get_new_chat D w1 = (None, w2)"
  shows "check_for_new_chat events D current w = (MAIN, w2)"
  using assms change_state_to_MAIN_state [of D current w]
  by (cases r1) (simp add: check_for_new_chat_def)

lemma check_for_new_chat_some:
  assumes "change_state D current MAIN w = (r1, w1)"
    and "do_get_new_chat D w1 = (Some c, w2)"
    and "change_state D MAIN (CHAT (chat_name c)) w2 = ((rc, cur), w3)"
    and "do_get_new_messages D w3 = (ms, w4)"
  shows "check_for_new_chat events D current w =
     (cur, fold (\<lambda>m. call_event events MESSAGE_RECEIVED (chat_name c, m)) ms w4)"
  using assms change_state_to_MAIN_state [of D current w]
  by (cases r1) (simp add: check_for_new_chat_def)

lemma emitted_before_messages:
  assumes "change_state D current MAIN w = (r1, w1)"
    and "do_get_new_chat D w1 = (chat, w2)"
    and "change_state D MAIN (CHAT n) w2 = (r3, w3)"
    and "do_get_new_messages D w3 = (ms, w4)"
  shows "emitted w2 = emitted w" and "emitted w4 = emitted w"
    and "calls w4 = calls w3 @ [Get_new_messages]"
proof -
  have 1: "emitted w1 = emitted w"
    using emitted_change_state [of D current MAIN w] assms(1) by simp
  show 2: "emitted w2 = emitted w"
    using assms(2) 1 by (auto simp: driver_wrappers)
  have 3: "emitted w3 = emitted w"
    using emitted_change_state [of D MAIN "CHAT n" w2] assms(3) 2 by simp
  show "emitted w4 = emitted w"
    using assms(4) 3 by (auto simp: driver_wrappers)
  show "calls w4 = calls w3 @ [Get_new_messages]"
    using assms(4) by (auto simp: driver_wrappers)
qed

section \<open>Properties of change_state\<close>

text \<open>
  C1, as the code has it. The claim says that a failing \<^verbatim>\<open>change_state\<close> always returns
  the state it was called with, also from \<open>CHAT x\<close> to another \<open>CHAT y\<close>. There the
  source presses back and returns what the call from \<open>MAIN\<close> returns, so a failure
  returns \<open>MAIN\<close>: with a driver that finds nothing, the call from \<open>CHAT (py ''a'')\<close> to
  \<open>CHAT (py ''b'')\<close> fails with \<open>MAIN\<close>.
\<close>

theorem change_state_failure_counterexample:
  "fst (change_state (scripted_driver None []) (CHAT (py ''a'')) (CHAT (py ''b'')) (world0 [] []))
     = (1, MAIN) \<and> MAIN \<noteq> CHAT (py ''a'')"
  by (simp add: change_state_CHAT_CHAT change_state_MAIN_CHAT change_state_from_main_def
      driver_wrappers concrete_defs Let_def)

text \<open>
  C1, amended. Whenever \<^verbatim>\<open>change_state\<close> returns failure, the returned state is the
  state it was called with if the source or the target is \<open>MAIN\<close>; from a chat to a
  chat a failure happens only between different chats, and the returned state is then
  \<open>MAIN\<close>, the screen the back-navigation has reached.
\<close>

theorem change_state_failure_state:
  assumes "fst (fst (change_state D from to w)) \<noteq> 0"
  shows "(to = MAIN \<or> from = MAIN \<longrightarrow> snd (fst (change_state D from to w)) = from) \<and>
         (\<forall>x y. from = CHAT x \<and> to = CHAT y \<longrightarrow>
            x \<noteq> y \<and> snd (fst (change_state D from to w)) = MAIN)"
  using assms change_state_result [of D "from" "to" w]
  by (cases "from"; cases "to") (auto simp: change_state_CHAT_CHAT)

theorem change_state_failure_state_witness:
  "fst (fst (change_state (scripted_driver None []) MAIN (CHAT (py ''bob'')) (world0 [] []))) \<noteq> 0 \<and>
   snd (fst (change_state (scripted_driver None []) MAIN (CHAT (py ''bob'')) (world0 [] []))) = MAIN \<and>
   fst (fst (change_state (scripted_driver None []) (CHAT (py ''a'')) (CHAT (py ''bob'')) (world0 [] []))) \<noteq> 0 \<and>
   snd (fst (change_state (scripted_driver None []) (CHAT (py ''a'')) (CHAT (py ''bob'')) (world0 [] []))) = MAIN"
proof -
  let ?r = "change_state (scripted_driver None []) MAIN (CHAT (py ''bob'')) (world0 [] [])"
  let ?q = "change_state (scripted_driver None []) (CHAT (py ''a'')) (CHAT (py ''bob'')) (world0 [] [])"
  have "fst ?r = (1, MAIN)"
    by (simp add: change_state_MAIN_CHAT change_state_from_main_def
      driver_wrappers concrete_defs Let_def)
  then have f: "fst (fst ?r) \<noteq> 0" by simp
  have "fst ?q = (1, MAIN)"
    by (simp add: change_state_CHAT_CHAT change_state_MAIN_CHAT change_state_from_main_def
      driver_wrappers concrete_defs Let_def)
  then have g: "fst (fst ?q) \<noteq> 0" by simp
  from change_state_failure_state [OF f] have "snd (fst ?r) = MAIN" by blast
  moreover from change_state_failure_state [OF g] have "snd (fst ?q) = MAIN" by blast
  ultimately show ?thesis using f g by blast
qed

text \<open>
  C2, as the code has it. The claim says that once the search has returned true for
  \<open>x\<close> the reconciler taps it and succeeds. The source taps it, and that tap can fail:
  with a driver whose first tap fails, whose search returns true and whose second tap
  fails, and an identifier that is no phone number, the result is failure.
\<close>

theorem change_state_search_then_tap_counterexample:
  "\<not> fst (click_on_chat (scripted_driver None []) (py ''bob'') [False, True, False]) \<and>
   fst (search_chat (scripted_driver None []) (py ''bob'') [True, False]) \<and>
   fst (change_state (scripted_driver None []) MAIN (CHAT (py ''bob'')) (world0 [False, True, False] []))
     = (1, MAIN)"
  by (simp add: change_state_MAIN_CHAT change_state_from_main_def
      driver_wrappers concrete_defs Let_def deep_link_eligible_def match_digits_def is_digit_def
      decimal_starts_def)

text \<open>
  C2, amended. In the transition from \<open>MAIN\<close> to \<open>CHAT x\<close>, when the direct tap on \<open>x\<close>
  has failed, name what the driver answers to the calls that may follow. If the search
  for \<open>x\<close> returns true and the tap that follows returns true, the result is success
  with \<open>CHAT x\<close> after exactly these three driver calls. If the search returns false,
  the result is failure with \<open>MAIN\<close> after exactly the two calls: nothing is navigated
  back and no deep link is tried. If the search returns true and the tap that follows
  returns false, and only then, back is pressed twice and the deep-link fallback is
  entered: the result is success with \<open>CHAT x\<close> exactly when \<open>x\<close> is deep-link
  eligible, the search for and the tap on \<^verbatim>\<open>!temp\<close>, the sending of the link and the tap
  on it all return true and \<^verbatim>\<open>click_ok\<close> returns false, and failure with \<open>MAIN\<close>
  otherwise; the driver calls issued are exactly those of the source up to the first
  answer that ends the chain, with one more \<^verbatim>\<open>press_back\<close> when the sending of the link
  or the tap on it failed.
\<close>

theorem change_state_search_then_tap:
  assumes "click_on_chat D x (drv w) = (False, d1)"
    and "search_chat D x d1 = (b2, d2)"
    and "click_on_chat D x d2 = (b3, d3)"
    and "search_chat D (py ''!temp'') (press_back D (press_back D d3)) = (b4, d4)"
    and "click_on_chat D (py ''!temp'') d4 = (b5, d5)"
    and "type_and_send D (py ''wa.me/'' @ x) d5 = (b6, d6)"
    and "click_on_last_chat_link D d6 = (b7, d7)"
    and "click_ok D d7 = (b8, d8)"
  shows "(b2 \<and> b3 \<longrightarrow>
            change_state D MAIN (CHAT x) w =
              ((0, CHAT x),
               w\<lparr>drv := d3,
                 system := (system w)\<lparr>logger := logger (system w) @
                   [Debug (py ''Couldn't find chat '' @ x @ py '', trying search bar'')]\<rparr>,
                 calls := calls w @ [Click_on_chat x, Search_chat x, Click_on_chat x]\<rparr>)) \<and>
         (\<not> b2 \<longrightarrow>
            change_state D MAIN (CHAT x) w =
              ((1, MAIN),
               w\<lparr>drv := d2,
                 system := (system w)\<lparr>logger := logger (system w) @
                   [Debug (py ''Couldn't find chat '' @ x @ py '', trying search bar'')]\<rparr>,
                 calls := calls w @ [Click_on_chat x, Search_chat x]\<rparr>)) \<and>
         (b2 \<and> \<not> b3 \<longrightarrow>
            fst (change_state D MAIN (CHAT x) w) =
              (if deep_link_eligible x \<and> b4 \<and> b5 \<and> b6 \<and> b7 \<and> \<not> b8 then (0, CHAT x)
               else (1, MAIN)) \<and>
            calls (snd (change_state D MAIN (CHAT x) w)) =
              calls w @
              [Click_on_chat x, Search_chat x, Click_on_chat x, Press_back, Press_back] @
              (if \<not> deep_link_eligible x then []
               else if \<not> b4 then [Search_chat (py ''!temp'')]
               else if \<not> b5 then [Search_chat (py ''!temp''), Click_on_chat (py ''!temp'')]
               else if \<not> b6 then
                 [Search_chat (py ''!temp''), Click_on_chat (py ''!temp''),
                  Type_and_send (py ''wa.me/'' @ x), Press_back]
               else if \<not> b7 then
                 [Search_chat (py ''!temp''), Click_on_chat (py ''!temp''),
                  Type_and_send (py ''wa.me/'' @ x), Click_on_last_chat_link, Press_back]
               else
                 [Search_chat (py ''!temp''), Click_on_chat (py ''!temp''),
                  Type_and_send (py ''wa.me/'' @ x), Click_on_last_chat_link, Click_ok]) \<and>
            drv (snd (change_state D MAIN (CHAT x) w)) =
              (if \<not> deep_link_eligible x then press_back D (press_back D d3)
               else if \<not> b4 then d4
               else if \<not> b5 then d5
               else if \<not> b6 then press_back D d6
               else if \<not> b7 then press_back D d7
               else d8))"
  using assms
  by (simp add: change_state_MAIN_CHAT change_state_from_main_def driver_wrappers Let_def
      split: prod.split)

theorem change_state_search_then_tap_witness:
  "fst (change_state (scripted_driver None []) MAIN (CHAT (py ''bob''))
          (world0 [False, True, True] [])) = (0, CHAT (py ''bob'')) \<and>
   calls (snd (change_state (scripted_driver None []) MAIN (CHAT (py ''bob''))
          (world0 [False, True, True] []))) =
     [Click_on_chat (py ''bob''), Search_chat (py ''bob''), Click_on_chat (py ''bob'')] \<and>
   fst (change_state (scripted_driver None []) MAIN (CHAT (py ''12345678901''))
          (world0 [False, True, False, True, True, True, True, False] []))
     = (0, CHAT (py ''12345678901'')) \<and>
   calls (snd (change_state (scripted_driver None []) MAIN (CHAT (py ''12345678901''))
          (world0 [False, True, False, True, True, True, True, False] []))) =
     [Click_on_chat (py ''12345678901''), Search_chat (py ''12345678901''),
      Click_on_chat (py ''12345678901''), Press_back, Press_back,
      Search_chat (py ''!temp''), Click_on_chat (py ''!temp''),
      Type_and_send (py ''wa.me/12345678901''), Click_on_last_chat_link, Click_ok] \<and>
   fst (change_state (scripted_driver None []) MAIN (CHAT (py ''12345678901''))
          (world0 [False, True, False, True, True, True, True, True] [])) = (1, MAIN)"
proof -
  let ?D = "scripted_driver None []"
  have e: "deep_link_eligible (py ''12345678901'')"
    by (simp add: deep_link_eligible_def match_digits_def is_digit_def decimal_starts_def py_def)
  have t: "py ''wa.me/'' @ py ''12345678901'' = py ''wa.me/12345678901''"
    by (simp add: py_def)
  have 1: "change_state ?D MAIN (CHAT (py ''bob'')) (world0 [False, True, True] []) =
      ((0, CHAT (py ''bob'')),
       (world0 [False, True, True] [])\<lparr>drv := [],
          system := (system (world0 [False, True, True] []))\<lparr>logger :=
            logger (system (world0 [False, True, True] [])) @
            [Debug (py ''Couldn't find chat '' @ py ''bob'' @ py '', trying search bar'')]\<rparr>,
          calls := calls (world0 [False, True, True] []) @
            [Click_on_chat (py ''bob''), Search_chat (py ''bob''), Click_on_chat (py ''bob'')]\<rparr>)"
    using change_state_search_then_tap [of ?D "py ''bob''" "world0 [False, True, True] []"
        "[True, True]" True "[True]" True "[]" False "[]" False "[]" False "[]" False "[]"
        False "[]"]
    by (simp add: scripted_driver_def next_answer_def world0_def)
  have 2: "fst (change_state ?D MAIN (CHAT (py ''12345678901''))
             (world0 [False, True, False, True, True, True, True, False] []))
           = (0, CHAT (py ''12345678901'')) \<and>
        calls (snd (change_state ?D MAIN (CHAT (py ''12345678901''))
             (world0 [False, True, False, True, True, True, True, False] []))) =
        calls (world0 [False, True, False, True, True, True, True, False] []) @
        [Click_on_chat (py ''12345678901''), Search_chat (py ''12345678901''),
         Click_on_chat (py ''12345678901''), Press_back, Press_back] @
        [Search_chat (py ''!temp''), Click_on_chat (py ''!temp''),
         Type_and_send (py ''wa.me/'' @ py ''12345678901''), Click_on_last_chat_link, Click_ok]"
    using change_state_search_then_tap [of ?D "py ''12345678901''"
        "world0 [False, True, False, True, True, True, True, False] []"
        "[True, False, True, True, True, True, False]" True
        "[False, True, True, True, True, False]" False
        "[True, True, True, True, False]" True "[True, True, True, False]"
        True "[True, True, False]" True "[True, False]" True "[False]" False "[]"] e
    by (simp add: scripted_driver_def next_answer_def world0_def)
  have 3: "fst (change_state ?D MAIN (CHAT (py ''12345678901''))
             (world0 [False, True, False, True, True, True, True, True] [])) = (1, MAIN)"
    using change_state_search_then_tap [of ?D "py ''12345678901''"
        "world0 [False, True, False, True, True, True, True, True] []"
        "[True, False, True, True, True, True, True]" True
        "[False, True, True, True, True, True]" False
        "[True, True, True, True, True]" True "[True, True, True, True]"
        True "[True, True, True]" True "[True, True]" True "[True]" True "[]"] e
    by (simp add: scripted_driver_def next_answer_def world0_def)
  show ?thesis
    using 1 2 3 t by (simp add: world0_def)
qed

text \<open>
  C3. For distinct chat identifiers \<open>x\<close> and \<open>y\<close>, \<^verbatim>\<open>change_state\<close> from \<open>CHAT x\<close> to
  \<open>CHAT y\<close> is \<^verbatim>\<open>change_state\<close> from \<open>MAIN\<close> to \<open>CHAT y\<close> in the world that one
  \<^verbatim>\<open>press_back\<close> call leaves: the driver has moved by that call, the call history has
  grown by exactly that call, and the result and the final world are those of the call
  from \<open>MAIN\<close>.
\<close>

theorem change_state_chat_to_other_chat:
  "x \<noteq> y \<Longrightarrow>
     change_state D (CHAT x) (CHAT y) w =
     change_state D MAIN (CHAT y) (w\<lparr>drv := press_back D (drv w), calls := calls w @ [Press_back]\<rparr>)"
  by (simp add: change_state_CHAT_CHAT do_press_back_def)

theorem change_state_chat_to_other_chat_witness:
  "(py ''a'') \<noteq> (py ''b'') \<and>
   change_state (scripted_driver None []) (CHAT (py ''a'')) (CHAT (py ''b'')) (world0 [True] []) =
     ((0, CHAT (py ''b'')),
      \<lparr>drv = [], system = \<lparr>action_buffer = [], logger = [], supbot = ()\<rparr>,
       calls = [Press_back, Click_on_chat (py ''b'')], emitted = []\<rparr>)"
  using change_state_chat_to_other_chat [of "(py ''a'')" "(py ''b'')" "scripted_driver None []" "world0 [True] []"]
  by (simp add: change_state_MAIN_CHAT change_state_from_main_def
      driver_wrappers concrete_defs Let_def)

text \<open>
  C8. For every chat identifier \<open>x\<close>, reconciling from \<open>CHAT x\<close> to \<open>CHAT x\<close> returns
  success and \<open>CHAT x\<close>, and the world is the one it was called in: no driver call was
  issued, nothing was logged, the remote application was not touched.
\<close>

theorem change_state_same_chat_noop:
  "change_state D (CHAT x) (CHAT x) w = ((0, CHAT x), w)"
  by (simp add: change_state_CHAT_CHAT)

text \<open>
  C10. \<^verbatim>\<open>change_state\<close> returns on every input (it is a total function, by the
  termination proof above), and one nested self-call is enough: with one self-call
  allowed the bounded function returns, on every input, what \<^verbatim>\<open>change_state\<close> returns,
  and from \<open>MAIN\<close> it returns without any self-call.
\<close>

theorem change_state_recursion_depth:
  "change_state_fuel (Suc 0) D from to w = Some (change_state D from to w) \<and>
   change_state_fuel 0 D MAIN to w = Some (change_state D MAIN to w)"
  by (cases "from"; cases "to")
     (simp_all add: change_state_fuel.simps change_state.simps [of D MAIN]
        change_state.simps [of D "CHAT _" MAIN] change_state_CHAT_CHAT split: GUIState.split)

theorem change_state_recursion_depth_witness:
  "change_state_fuel (Suc 0) (scripted_driver None []) (CHAT (py ''a'')) (CHAT (py ''b'')) (world0 [True] [])
     = Some ((0, CHAT (py ''b'')),
      \<lparr>drv = [], system = \<lparr>action_buffer = [], logger = [], supbot = ()\<rparr>,
       calls = [Press_back, Click_on_chat (py ''b'')], emitted = []\<rparr>) \<and>
   change_state_fuel 0 (scripted_driver None []) (CHAT (py ''a'')) (CHAT (py ''b'')) (world0 [True] []) = None"
  using change_state_recursion_depth [of "scripted_driver None []" "CHAT (py ''a'')" "CHAT (py ''b'')" "world0 [True] []"]
  by (simp add: change_state_CHAT_CHAT change_state_MAIN_CHAT change_state_from_main_def
      change_state_fuel.simps [of 0] driver_wrappers concrete_defs Let_def)

section \<open>The deep-link pattern is the spec's digit run\<close>

text \<open>
  Some characters: the ASCII digits are digits, and so are an Arabic-Indic, a
  Devanagari and a fullwidth one; a letter, the superscript two (U+00B2, which is
  numeric but not decimal) and the character before the ASCII zero are not.
\<close>

lemma is_digit_examples:
  "list_all is_digit (py ''0123456789'')"
  "is_digit 1632" "is_digit 2415" "is_digit 65296"
  "\<not> is_digit 97" "\<not> is_digit 178" "\<not> is_digit 47" "\<not> is_digit 58"
  by (simp_all add: is_digit_def decimal_starts_def py_def)

lemma match_digits_11_13:
  "(match_digits 11 13 s = None) = (length (takeWhile is_digit s) < 11)"
  by (auto simp: match_digits_def Let_def)

lemma digit_prefix_iff:
  "(\<exists>ds. prefix ds s \<and> 11 \<le> length ds \<and> length ds \<le> 13 \<and> list_all is_digit ds)
     = (11 \<le> length (takeWhile is_digit s))"
proof
  assume "\<exists>ds. prefix ds s \<and> 11 \<le> length ds \<and> length ds \<le> 13 \<and> list_all is_digit ds"
  then obtain ds zs where s: "s = ds @ zs" and len: "11 \<le> length ds"
    and dig: "list_all is_digit ds"
    by (auto simp: prefix_def)
  from dig have "takeWhile is_digit s = ds @ takeWhile is_digit zs"
    unfolding s by (intro takeWhile_append2) (simp add: list_all_iff)
  with len show "11 \<le> length (takeWhile is_digit s)" by simp
next
  assume len: "11 \<le> length (takeWhile is_digit s)"
  let ?ds = "take 11 (takeWhile is_digit s)"
  have "prefix ?ds (takeWhile is_digit s)" by (rule take_is_prefix)
  then have "prefix ?ds s"
    using takeWhile_is_prefix [of is_digit s] by (rule prefix_order.trans)
  moreover have "length ?ds = 11" using len by simp
  moreover have "list_all is_digit ?ds"
    by (auto simp: list_all_iff dest: in_set_takeD set_takeWhileD)
  ultimately show "\<exists>ds. prefix ds s \<and> 11 \<le> length ds \<and> length ds \<le> 13 \<and> list_all is_digit ds"
    by (intro exI [of _ ?ds]) simp
qed

lemma re_search_digits_iff:
  "re_search_digits 11 13 s = has_digit_run s"
proof (induction s)
  case Nil
  show ?case by (simp add: has_digit_run_def match_digits_def)
next
  case (Cons c cs)
  have "has_digit_run (c # cs) =
      ((\<exists>ds. prefix ds (c # cs) \<and> 11 \<le> length ds \<and> length ds \<le> 13 \<and> list_all is_digit ds)
       \<or> has_digit_run cs)"
    unfolding has_digit_run_def sublist_Cons_right by blast
  also have "\<dots> = (11 \<le> length (takeWhile is_digit (c # cs)) \<or> re_search_digits 11 13 cs)"
    unfolding digit_prefix_iff Cons.IH ..
  also have "\<dots> = re_search_digits 11 13 (c # cs)"
    using match_digits_11_13 [of "c # cs"]
    by (cases "match_digits 11 13 (c # cs)") (auto simp del: takeWhile.simps)
  finally show ?case ..
qed

text \<open>
  C5. The test that guards the deep-link branch holds of a string if and only if the
  string contains a contiguous run of 11 to 13 digit characters, a digit character
  being any Unicode decimal digit as for \<^verbatim>\<open>\d\<close>; the 11 digits \<^verbatim>\<open>"12345678901"\<close> pass
  it and the 10 digits \<^verbatim>\<open>"1234567890"\<close> do not. (The witness adds eleven
  Arabic-Indic digits, U+0661 and following, which pass it too.)
\<close>

theorem deep_link_eligible_iff_digit_run:
  "(deep_link_eligible s = has_digit_run s) \<and>
   deep_link_eligible (py ''12345678901'') \<and> \<not> deep_link_eligible (py ''1234567890'')"
proof -
  have "deep_link_eligible (py ''12345678901'')"
    by (simp add: deep_link_eligible_def match_digits_def is_digit_def decimal_starts_def py_def)
  moreover have "\<not> deep_link_eligible (py ''1234567890'')"
    by (simp add: deep_link_eligible_def match_digits_def is_digit_def decimal_starts_def py_def)
  ultimately show ?thesis by (simp add: deep_link_eligible_def re_search_digits_iff)
qed

theorem deep_link_eligible_iff_digit_run_witness:
  "has_digit_run (py ''12345678901'') \<and> \<not> has_digit_run (py ''1234567890'') \<and>
   has_digit_run [1633, 1634, 1635, 1636, 1637, 1638, 1639, 1640, 1641, 1632, 1633]"
proof -
  have "deep_link_eligible [1633, 1634, 1635, 1636, 1637, 1638, 1639, 1640, 1641, 1632, 1633]"
    by (simp add: deep_link_eligible_def match_digits_def is_digit_def decimal_starts_def)
  then show ?thesis
    using deep_link_eligible_iff_digit_run [of "py ''12345678901''"]
      deep_link_eligible_iff_digit_run [of "py ''1234567890''"]
      deep_link_eligible_iff_digit_run
        [of "[1633, 1634, 1635, 1636, 1637, 1638, 1639, 1640, 1641, 1632, 1633]"]
    by simp
qed

section \<open>Properties of check_for_new_chat\<close>

text \<open>
  C4. Name the steps of \<^verbatim>\<open>check_for_new_chat\<close>: the reconciliation to \<open>MAIN\<close>, the
  query for a new chat, the reconciliation into \<open>CHAT n\<close> and the query for the new
  messages. If the driver reports no new chat, the result is \<open>MAIN\<close> and no event is
  emitted. If it reports the chat named \<open>n\<close> and then the messages \<open>m1\<close>, \<open>m2\<close>, \<open>m3\<close>
  in this order, the function has gone through the reconciliation into \<open>CHAT n\<close>
  (returning its state, which is \<open>CHAT n\<close> when it succeeded), and exactly three events
  have been emitted, \<open>MESSAGE_RECEIVED\<close> with \<open>(n, m1)\<close>, \<open>(n, m2)\<close>, \<open>(n, m3)\<close>, in
  this order.
\<close>

theorem check_for_new_chat_events:
  assumes "change_state D current MAIN w = (r1, w1)"
    and "do_get_new_chat D w1 = (chat, w2)"
    and "change_state D MAIN (CHAT n) w2 = ((rc, cur), w3)"
    and "do_get_new_messages D w3 = (ms, w4)"
  shows "(chat = None \<longrightarrow>
            fst (check_for_new_chat events D current w) = MAIN \<and>
            emitted (snd (check_for_new_chat events D current w)) = emitted w) \<and>
         (chat = Some \<lparr>chat_name = n\<rparr> \<and> ms = [m1, m2, m3] \<longrightarrow>
            fst (check_for_new_chat events D current w) = cur \<and>
            (rc = 0 \<longrightarrow> cur = CHAT n) \<and>
            calls (snd (check_for_new_chat events D current w)) = calls w3 @ [Get_new_messages] \<and>
            emitted (snd (check_for_new_chat events D current w)) =
              emitted w @ [(MESSAGE_RECEIVED, n, m1), (MESSAGE_RECEIVED, n, m2),
                           (MESSAGE_RECEIVED, n, m3)])"
proof (intro conjI impI)
  assume "chat = None"
  with assms(1,2) have "check_for_new_chat events D current w = (MAIN, w2)"
    by (simp add: check_for_new_chat_none)
  then show "fst (check_for_new_chat events D current w) = MAIN"
    and "emitted (snd (check_for_new_chat events D current w)) = emitted w"
    using emitted_before_messages(1) [OF assms] by simp_all
next
  assume c: "chat = Some \<lparr>chat_name = n\<rparr> \<and> ms = [m1, m2, m3]"
  let ?c = "\<lparr>chat_name = n\<rparr>"
  have e: "check_for_new_chat events D current w =
      (cur, fold (\<lambda>m. call_event events MESSAGE_RECEIVED (chat_name ?c, m)) ms w4)"
    using assms c by (intro check_for_new_chat_some [where ?w1.0 = w1 and ?w2.0 = w2 and ?w3.0 = w3]) simp_all
  show "fst (check_for_new_chat events D current w) = cur"
    using e by simp
  have "emitted (snd (check_for_new_chat events D current w)) =
      emitted w @ map (\<lambda>m. (MESSAGE_RECEIVED, n, m)) ms"
    using e emitted_before_messages(2) [OF assms] by (simp add: fold_call_event)
  then show "emitted (snd (check_for_new_chat events D current w)) =
      emitted w @ [(MESSAGE_RECEIVED, n, m1), (MESSAGE_RECEIVED, n, m2), (MESSAGE_RECEIVED, n, m3)]"
    using c by simp
  show "calls (snd (check_for_new_chat events D current w)) = calls w3 @ [Get_new_messages]"
    using e emitted_before_messages(3) [OF assms] by (simp add: fold_call_event)
  show "cur = CHAT n" if "rc = 0"
    using that assms(3) change_state_result [of D MAIN "CHAT n" w2] by simp
qed

theorem check_for_new_chat_events_witness:
  "fst (check_for_new_chat (\<lambda>e. Some enqueue_callback)
          (scripted_driver (Some \<lparr>chat_name = (py ''bob'')\<rparr>) [(py ''m1''), (py ''m2''), (py ''m3'')])
          (CHAT (py ''x'')) (world0 [True] [])) = CHAT (py ''bob'') \<and>
   emitted (snd (check_for_new_chat (\<lambda>e. Some enqueue_callback)
          (scripted_driver (Some \<lparr>chat_name = (py ''bob'')\<rparr>) [(py ''m1''), (py ''m2''), (py ''m3'')])
          (CHAT (py ''x'')) (world0 [True] []))) =
     [(MESSAGE_RECEIVED, (py ''bob''), (py ''m1'')), (MESSAGE_RECEIVED, (py ''bob''), (py ''m2'')),
      (MESSAGE_RECEIVED, (py ''bob''), (py ''m3''))] \<and>
   emitted (snd (check_for_new_chat (\<lambda>e. Some enqueue_callback) (scripted_driver None [])
          (CHAT (py ''x'')) (world0 [True] []))) = []"
proof -
  let ?D = "scripted_driver (Some \<lparr>chat_name = (py ''bob'')\<rparr>) [(py ''m1''), (py ''m2''), (py ''m3'')]"
  let ?w = "world0 [True] [] :: (bool list, nat, nat, nat, unit, pystr) world"
  let ?r1 = "change_state ?D (CHAT (py ''x'')) MAIN ?w"
  let ?r2 = "do_get_new_chat ?D (snd ?r1)"
  let ?r3 = "change_state ?D MAIN (CHAT (py ''bob'')) (snd ?r2)"
  let ?r4 = "do_get_new_messages ?D (snd ?r3)"
  have h1: "?r1 = (fst ?r1, snd ?r1)" by simp
  have h2: "?r2 = (Some \<lparr>chat_name = (py ''bob'')\<rparr>, snd ?r2)"
    by (simp add: driver_wrappers scripted_driver_def)
  have h3: "?r3 = ((0, CHAT (py ''bob'')), snd ?r3)"
    by (simp add: change_state_MAIN_CHAT change_state_to_MAIN change_state_from_main_def
        driver_wrappers concrete_defs Let_def)
  have h4: "?r4 = ([(py ''m1''), (py ''m2''), (py ''m3'')], snd ?r4)"
    by (simp add: driver_wrappers scripted_driver_def)
  let ?E = "scripted_driver None []"
  let ?q1 = "change_state ?E (CHAT (py ''x'')) MAIN ?w"
  let ?q2 = "do_get_new_chat ?E (snd ?q1)"
  let ?q3 = "change_state ?E MAIN (CHAT (py ''bob'')) (snd ?q2)"
  let ?q4 = "do_get_new_messages ?E (snd ?q3)"
  have k1: "?q1 = (fst ?q1, snd ?q1)" by simp
  have k2: "?q2 = (None, snd ?q2)"
    by (simp add: driver_wrappers scripted_driver_def)
  have k3: "?q3 = ((fst (fst ?q3), snd (fst ?q3)), snd ?q3)" by simp
  have k4: "?q4 = (fst ?q4, snd ?q4)" by simp
  have e: "emitted ?w = []" by (simp add: world0_def)
  show ?thesis
    using check_for_new_chat_events [OF h1 h2 h3 h4,
        where events = "\<lambda>e. Some enqueue_callback"
          and ?m1.0 = "(py ''m1'')" and ?m2.0 = "(py ''m2'')" and ?m3.0 = "(py ''m3'')"]
      check_for_new_chat_events [OF k1 k2 k3 k4, where events = "\<lambda>e. Some enqueue_callback"] e
    by simp
qed

text \<open>
  C9. \<^verbatim>\<open>check_for_new_chat\<close> does not look at the success flag: when a new chat is found
  and the reconciliation from \<open>MAIN\<close> into it fails, the new messages are fetched all the
  same, one \<open>MESSAGE_RECEIVED\<close> event per message is emitted for that chat, in order,
  and the returned state is \<open>MAIN\<close>.
\<close>

theorem check_for_new_chat_ignores_failure:
  assumes "change_state D current MAIN w = (r1, w1)"
    and "do_get_new_chat D w1 = (Some c, w2)"
    and "change_state D MAIN (CHAT (chat_name c)) w2 = ((rc, cur), w3)"
    and "rc \<noteq> 0"
    and "do_get_new_messages D w3 = (ms, w4)"
  shows "fst (check_for_new_chat events D current w) = MAIN \<and>
         calls (snd (check_for_new_chat events D current w)) = calls w3 @ [Get_new_messages] \<and>
         emitted (snd (check_for_new_chat events D current w)) =
           emitted w @ map (\<lambda>m. (MESSAGE_RECEIVED, chat_name c, m)) ms"
proof -
  have e: "check_for_new_chat events D current w =
      (cur, fold (\<lambda>m. call_event events MESSAGE_RECEIVED (chat_name c, m)) ms w4)"
    using assms(1,2,3,5) by (rule check_for_new_chat_some)
  have "cur = MAIN"
    using assms(3,4) change_state_result [of D MAIN "CHAT (chat_name c)" w2] by simp
  then show ?thesis
    using e emitted_before_messages(2,3) [OF assms(1,2,3,5)]
    by (simp add: fold_call_event)
qed

theorem check_for_new_chat_ignores_failure_witness:
  "fst (check_for_new_chat (\<lambda>e. Some enqueue_callback)
          (scripted_driver (Some \<lparr>chat_name = (py ''bob'')\<rparr>) [(py ''hi''), (py ''yo'')])
          MAIN (world0 [] [])) = MAIN \<and>
   emitted (snd (check_for_new_chat (\<lambda>e. Some enqueue_callback)
          (scripted_driver (Some \<lparr>chat_name = (py ''bob'')\<rparr>) [(py ''hi''), (py ''yo'')])
          MAIN (world0 [] []))) =
     [(MESSAGE_RECEIVED, (py ''bob''), (py ''hi'')), (MESSAGE_RECEIVED, (py ''bob''), (py ''yo''))]"
proof -
  let ?D = "scripted_driver (Some \<lparr>chat_name = (py ''bob'')\<rparr>) [(py ''hi''), (py ''yo'')]"
  let ?w = "world0 [] [] :: (bool list, nat, nat, nat, unit, pystr) world"
  let ?r1 = "change_state ?D MAIN MAIN ?w"
  let ?r2 = "do_get_new_chat ?D (snd ?r1)"
  let ?r3 = "change_state ?D MAIN (CHAT (chat_name \<lparr>chat_name = (py ''bob'')\<rparr>)) (snd ?r2)"
  let ?r4 = "do_get_new_messages ?D (snd ?r3)"
  have h1: "?r1 = (fst ?r1, snd ?r1)" by simp
  have h2: "?r2 = (Some \<lparr>chat_name = (py ''bob'')\<rparr>, snd ?r2)"
    by (simp add: driver_wrappers scripted_driver_def)
  have h3: "?r3 = ((1, MAIN), snd ?r3)"
    by (simp add: change_state_MAIN_CHAT change_state_to_MAIN change_state_from_main_def
        driver_wrappers concrete_defs Let_def)
  have h4: "?r4 = ([(py ''hi''), (py ''yo'')], snd ?r4)"
    by (simp add: driver_wrappers scripted_driver_def)
  have nz: "(1::int) \<noteq> 0" by simp
  have e: "emitted ?w = []" by (simp add: world0_def)
  show ?thesis
    using check_for_new_chat_ignores_failure [OF h1 h2 h3 nz h4,
        where events = "\<lambda>e. Some enqueue_callback"] e
    by simp
qed

section \<open>Properties of execute_action\<close>

text \<open>
  C6. When the buffer is not empty and the payload of its last action \<open>a\<close> fails the
  schema registered for the kind of \<open>a\<close>, \<^verbatim>\<open>execute_action\<close> returns the state it was
  given; the world it leaves is the one it was called in with \<open>a\<close> taken off the buffer
  and one warning added to the log. Nothing else has changed, whatever the registered
  handler would do: the handler is not run.
\<close>

theorem execute_action_bad_payload:
  assumes "action_buffer (system w) = buf @ [a]"
    and "actions (name a) = Some meta"
    and "\<not> check_type (data a) (data_type meta)"
  shows "execute_action actions check_type D current w =
     (Inr current,
      w\<lparr>system := (system w)\<lparr>action_buffer := buf,
           logger := logger (system w) @ [Warning_typing (name a) (data a) (data_type meta)]\<rparr>\<rparr>)"
  using assms
  by (cases buf) (simp_all add: execute_action_def Let_def logger_warning_def)

text \<open>
  C7. When the kind of the popped action is not in the registry, \<^verbatim>\<open>execute_action\<close> does
  not return a state: the \<^verbatim>\<open>KeyError\<close> of the lookup leaves it. The action has been
  taken off the buffer by then, and nothing else has changed.
\<close>

theorem execute_action_bad_payload_witness:
  "execute_action registry0 check_type0 (scripted_driver None []) (CHAT (py ''x''))
     (world0 [] [\<lparr>name = 0, data = 7\<rparr>, \<lparr>name = 0, data = 5\<rparr>])
   = (Inr (CHAT (py ''x'')),
      \<lparr>drv = [],
       system = \<lparr>action_buffer = [\<lparr>name = 0, data = 7\<rparr>],
                 logger = [Warning_typing 0 5 7], supbot = ()\<rparr>,
       calls = [], emitted = []\<rparr>)"
  using execute_action_bad_payload [of "world0 [] [\<lparr>name = 0, data = 7\<rparr>, \<lparr>name = 0, data = 5\<rparr>]"
      "[\<lparr>name = 0, data = 7\<rparr>]" "\<lparr>name = 0, data = 5\<rparr>" registry0
      "\<lparr>data_type = 7, run = (\<lambda>D current p w. (MAIN, do_press_back D w))\<rparr>"
      check_type0 "scripted_driver None []" "CHAT (py ''x'')"]
  by (simp add: concrete_defs)

theorem execute_action_unknown_kind:
  assumes "action_buffer (system w) = buf @ [a]"
    and "actions (name a) = None"
  shows "execute_action actions check_type D current w =
     (Inl KeyError, w\<lparr>system := (system w)\<lparr>action_buffer := buf\<rparr>\<rparr>)"
  using assms
  by (cases buf) (simp_all add: execute_action_def Let_def)

theorem execute_action_unknown_kind_witness:
  "execute_action registry0 check_type0 (scripted_driver None []) (CHAT (py ''x''))
     (world0 [] [\<lparr>name = 0, data = 7\<rparr>, \<lparr>name = 3, data = 7\<rparr>])
   = (Inl KeyError,
      \<lparr>drv = [],
       system = \<lparr>action_buffer = [\<lparr>name = 0, data = 7\<rparr>], logger = [], supbot = ()\<rparr>,
       calls = [], emitted = []\<rparr>)"
  using execute_action_unknown_kind [of "world0 [] [\<lparr>name = 0, data = 7\<rparr>, \<lparr>name = 3, data = 7\<rparr>]"
      "[\<lparr>name = 0, data = 7\<rparr>]" "\<lparr>name = 3, data = 7\<rparr>" registry0
      check_type0 "scripted_driver None []" "CHAT (py ''x'')"]
  by (simp add: concrete_defs)

end
